theory Spec2Isabelle
  imports Main
begin

section \<open>Values of the Python runtime\<close>

text \<open>
  The two programs, \<^verbatim>\<open>GPS-CLOCK.py\<close> and \<^verbatim>\<open>GPS-CLOCK2.py\<close>, read lines from a serial
  port, hand each line to the NMEA decoder \<^verbatim>\<open>pynmea2.parse\<close>, and show the date and time
  of the first RMC sentence that carries both, converted to the selected time zone.

  Bytes and text are \<open>string\<close> (a list of 8-bit characters). A \<^verbatim>\<open>datetime.date\<close>, a
  \<^verbatim>\<open>datetime.time\<close> and a \<^verbatim>\<open>datetime.datetime\<close> are their calendar fields. The
  microsecond of a time never reaches the display (the format string has no \<^verbatim>\<open>%f\<close>) and
  is left out.
\<close>

datatype pydate = Date (year: nat) (month: nat) (day: nat)

datatype pytime = Time (hour: nat) (minute: nat) (second: nat)

datatype pydatetime = DateTime (date_part: pydate) (time_part: pytime)

text \<open>The exceptions that can leave \<^verbatim>\<open>update_time\<close>: none of them is caught there.\<close>

datatype py_error = UnknownTimeZoneError | TypeError | AttributeError

subsection \<open>Decimal digits\<close>

definition is_digit :: "char \<Rightarrow> bool" where
  "is_digit c = (48 \<le> (of_char c :: nat) \<and> (of_char c :: nat) \<le> 57)"

definition digit_val :: "char \<Rightarrow> nat" where
  "digit_val c = of_char c - 48"

definition digit :: "nat \<Rightarrow> char" where
  "digit n = char_of (48 + n mod 10)"

text \<open>
  \<^verbatim>\<open>int(s)\<close> on a slice of a field. Only the spelling made of ASCII digits is modelled;
  Python also accepts surrounding white space, a sign and underscores, which count as a
  failure (\<open>None\<close>, the \<^verbatim>\<open>ValueError\<close>) here.
\<close>

definition py_int :: "string \<Rightarrow> nat option" where
  "py_int s =
     (if s \<noteq> [] \<and> list_all is_digit s
      then Some (foldl (\<lambda>a c. 10 * a + digit_val c) 0 s) else None)"

subsection \<open>The field converters of the decoder\<close>

text \<open>
  \<^verbatim>\<open>pynmea2.nmea_utils.timestamp\<close> converts \<^verbatim>\<open>"hhmmss[.ss]"\<close>:
  \<^verbatim>\<open>
  ms_s = s[6:]
  ms = ms_s and int(float(ms_s) * 1000000) or 0
  t = datetime.time(hour=int(s[0:2]), minute=int(s[2:4]), second=int(s[4:6]), microsecond=ms)
  \<close>
  \<^verbatim>\<open>datetime.time\<close> raises \<^verbatim>\<open>ValueError\<close> outside 0..23, 0..59, 0..59. Of the
  fractional part only the spelling \<^verbatim>\<open>.d\<close> with one to six digits is modelled (it gives a
  microsecond below one million); any other non-empty rest counts as a failure.
\<close>

definition frac_ok :: "string \<Rightarrow> bool" where
  "frac_ok r =
     (case r of
        [] \<Rightarrow> True
      | c # ds \<Rightarrow> c = CHR ''.'' \<and> ds \<noteq> [] \<and> length ds \<le> 6 \<and> list_all is_digit ds)"

definition timestamp :: "string \<Rightarrow> pytime option" where
  "timestamp s =
     (case (py_int (take 2 s), py_int (take 2 (drop 2 s)), py_int (take 2 (drop 4 s))) of
        (Some h, Some m, Some sec) \<Rightarrow>
          if frac_ok (drop 6 s) \<and> h < 24 \<and> m < 60 \<and> sec < 60
          then Some (Time h m sec) else None
      | _ \<Rightarrow> None)"

text \<open>
  \<^verbatim>\<open>pynmea2.nmea_utils.datestamp\<close> is
  \<^verbatim>\<open>datetime.datetime.strptime(s, '%d%m%y').date()\<close>. CPython's \<^verbatim>\<open>_strptime\<close> reads
  \<^verbatim>\<open>%y\<close> as
  \<^verbatim>\<open>
  year = int(found_dict['y'])
  # Open Group specification for strptime() states that a %y
  # value in the range of [00, 68] is in the century 2000, while
  # [69,99] is in the century 1900
  if year <= 68: year += 2000
  else: year += 1900
  \<close>
  and the date constructor raises \<^verbatim>\<open>ValueError\<close> for a day the month does not have.
  Only six-digit fields are modelled: there \<^verbatim>\<open>%d\<close>, \<^verbatim>\<open>%m\<close> and \<^verbatim>\<open>%y\<close> take two
  digits each, \<^verbatim>\<open>%d\<close> accepts 01..31 and \<^verbatim>\<open>%m\<close> accepts 01..12. Any other field counts
  as a failure.
\<close>

definition is_leap :: "nat \<Rightarrow> bool" where
  "is_leap y = (y mod 4 = 0 \<and> (y mod 100 \<noteq> 0 \<or> y mod 400 = 0))"

definition days_in_month :: "nat \<Rightarrow> nat \<Rightarrow> nat" where
  "days_in_month y m =
     (if m = 2 then (if is_leap y then 29 else 28)
      else if m = 4 \<or> m = 6 \<or> m = 9 \<or> m = 11 then 30 else 31)"

definition strptime_year :: "nat \<Rightarrow> nat" where
  "strptime_year y = (if y \<le> 68 then y + 2000 else y + 1900)"

definition datestamp :: "string \<Rightarrow> pydate option" where
  "datestamp s =
     (if length s \<noteq> 6 then None
      else case (py_int (take 2 s), py_int (take 2 (drop 2 s)), py_int (drop 4 s)) of
        (Some d, Some m, Some y) \<Rightarrow>
          if 1 \<le> m \<and> m \<le> 12 \<and> 1 \<le> d \<and> d \<le> 31 \<and> d \<le> days_in_month (strptime_year y) m
          then Some (Date (strptime_year y) m d) else None
      | _ \<Rightarrow> None)"

subsection \<open>Decoded sentences\<close>

text \<open>
  A decoded sentence keeps its fields as text; \<^verbatim>\<open>isinstance(msg, RMC)\<close> holds when the
  three-letter sentence code is \<^verbatim>\<open>RMC\<close>. An attribute is converted when it is read
  (\<^verbatim>\<open>NMEASentence.__getattr__\<close>): a missing or empty field reads as \<^verbatim>\<open>None\<close>, otherwise
  as the converted value, or as the field's own text when the converter raises.
  In an RMC sentence the time is field 0, the fix status field 1 and the date field 8.
\<close>

datatype sentence = Sentence (talker: string) (sentence_type: string) (data: "string list")

datatype 'a field = Absent | Conv 'a | Raw string

definition is_RMC :: "sentence \<Rightarrow> bool" where
  "is_RMC m = (sentence_type m = ''RMC'')"

definition getfield :: "(string \<Rightarrow> 'a option) \<Rightarrow> nat \<Rightarrow> sentence \<Rightarrow> 'a field" where
  "getfield conv i m =
     (let v = (if i < length (data m) then data m ! i else [])
      in if v = [] then Absent
         else case conv v of Some x \<Rightarrow> Conv x | None \<Rightarrow> Raw v)"

definition msg_timestamp :: "sentence \<Rightarrow> pytime field" where
  "msg_timestamp m = getfield timestamp 0 m"

definition msg_status :: "sentence \<Rightarrow> string" where
  "msg_status m = (if 1 < length (data m) then data m ! 1 else [])"

definition msg_datestamp :: "sentence \<Rightarrow> pydate field" where
  "msg_datestamp m = getfield datestamp 8 m"

text \<open>
  Truth value of an attribute in \<^verbatim>\<open>msg.timestamp and msg.datestamp\<close>: \<^verbatim>\<open>None\<close> is false,
  a string is true when it is not empty, a date is true, and so is every time, midnight
  included (the programs use f-strings, so they run on Python 3.6 or later, where
  \<^verbatim>\<open>datetime.time\<close> no longer has a false value).
\<close>

fun truthy :: "'a field \<Rightarrow> bool" where
  "truthy Absent = False"
| "truthy (Conv x) = True"
| "truthy (Raw v) = (v \<noteq> [])"

text \<open>
  \<^verbatim>\<open>datetime.combine(date, time)\<close> raises \<^verbatim>\<open>TypeError\<close> unless its arguments are a
  date and a time.
\<close>

fun combine :: "pydate field \<Rightarrow> pytime field \<Rightarrow> py_error + pydatetime" where
  "combine (Conv d) (Conv t) = Inr (DateTime d t)"
| "combine _ _ = Inl TypeError"

subsection \<open>Time zones\<close>

text \<open>
  A time zone is its projection of the calendar fields of a UTC instant to local
  calendar fields (\<^verbatim>\<open>dt.replace(tzinfo=pytz.UTC).astimezone(tz)\<close>); for UTC itself
  \<^verbatim>\<open>astimezone\<close> returns the datetime as it is. The zone database is a parameter:
  \<^verbatim>\<open>pytz.timezone\<close> raises \<^verbatim>\<open>UnknownTimeZoneError\<close> (here \<open>None\<close>) for a name it does
  not hold.
\<close>

type_synonym tzinfo = "pydatetime \<Rightarrow> pydatetime"

type_synonym zonedb = "string \<Rightarrow> tzinfo option"

definition utc :: tzinfo where
  "utc dt = dt"

definition timezone :: "zonedb \<Rightarrow> string \<Rightarrow> tzinfo option" where
  "timezone db zone = (if zone = ''UTC'' then Some utc else db zone)"

definition astimezone :: "tzinfo \<Rightarrow> pydatetime \<Rightarrow> pydatetime" where
  "astimezone tz dt = tz dt"

subsection \<open>Formatting and line clean-up\<close>

definition fmt2 :: "nat \<Rightarrow> string" where
  "fmt2 n = [digit (n div 10), digit n]"

definition fmt4 :: "nat \<Rightarrow> string" where
  "fmt4 n = [digit (n div 1000), digit (n div 100), digit (n div 10), digit n]"

text \<open>\<^verbatim>\<open>strftime('%Y-%m-%d\n%H:%M:%S')\<close>, for the four-digit years a date can have here.\<close>

definition strftime :: "pydatetime \<Rightarrow> string" where
  "strftime dt =
     fmt4 (year (date_part dt)) @ ''-'' @ fmt2 (month (date_part dt)) @ ''-'' @
     fmt2 (day (date_part dt)) @ [CHR 0x0A] @
     fmt2 (hour (time_part dt)) @ '':'' @ fmt2 (minute (time_part dt)) @ '':'' @
     fmt2 (second (time_part dt))"

text \<open>\<^verbatim>\<open>bytes.decode('ascii', 'ignore')\<close> drops every byte above 127 and never raises.\<close>

definition decode_ascii_ignore :: "string \<Rightarrow> string" where
  "decode_ascii_ignore bs = filter (\<lambda>c. (of_char c :: nat) < 128) bs"

text \<open>\<^verbatim>\<open>str.rstrip()\<close> removes trailing white space: in ASCII, 9..13, 28..31 and 32.\<close>

definition is_space :: "char \<Rightarrow> bool" where
  "is_space c =
     (let n = (of_char c :: nat) in (9 \<le> n \<and> n \<le> 13) \<or> (28 \<le> n \<and> n \<le> 32))"

definition rstrip :: "string \<Rightarrow> string" where
  "rstrip s = rev (dropWhile is_space (rev s))"

definition read_line :: "string \<Rightarrow> string" where
  "read_line raw = rstrip (decode_ascii_ignore raw)"

section \<open>The application state\<close>

text \<open>
  The fields of \<^verbatim>\<open>LEDClockApplication\<close> that \<^verbatim>\<open>update_time\<close> and \<^verbatim>\<open>set_clock_mode\<close>
  read or write, and the parts of the environment they act on:
  \<^item> \<open>ser\<close>: the records waiting in the serial port, one element for each
    \<^verbatim>\<open>readline()\<close>; \<^verbatim>\<open>in_waiting\<close> is non-zero while records remain;
  \<^item> \<open>clock_mode\<close>: \<open>None\<close> while the attribute has not been assigned yet
    (\<^verbatim>\<open>GPS-CLOCK2.py\<close> assigns it in \<^verbatim>\<open>__init__\<close> after the first \<^verbatim>\<open>update_time()\<close>);
  \<^item> \<open>canvas\<close>: the datetime the analog face was last drawn for;
  \<^item> \<open>geometry\<close>: the label text the window was last resized to (\<^verbatim>\<open>adjust_window_size\<close>);
  \<^item> \<open>stdout\<close>: the lines printed;
  \<^item> \<open>now\<close> and \<open>timers\<close>: the clock of the Tk event loop in milliseconds and the due
    times of the pending \<^verbatim>\<open>after\<close> callbacks (every one of them is \<^verbatim>\<open>update_time\<close>).
\<close>

record app =
  ser :: "string list"
  selected_time_zone :: string
  time_label :: string
  clock_mode :: "string option"
  canvas :: "pydatetime option"
  label_packed :: bool
  canvas_packed :: bool
  geometry :: "string option"
  stdout :: "string list"
  now :: nat
  timers :: "nat list"

type_synonym decoder = "string \<Rightarrow> sentence option"

definition print :: "string \<Rightarrow> app \<Rightarrow> app" where
  "print l s = s\<lparr>stdout := stdout s @ [l]\<rparr>"

definition after :: "nat \<Rightarrow> app \<Rightarrow> app" where
  "after ms s = s\<lparr>timers := timers s @ [now s + ms]\<rparr>"

definition adjust_window_size :: "app \<Rightarrow> app" where
  "adjust_window_size s = s\<lparr>geometry := Some (time_label s)\<rparr>"

definition draw_analog_clock :: "pydatetime \<Rightarrow> app \<Rightarrow> app" where
  "draw_analog_clock dt s = s\<lparr>canvas := Some dt\<rparr>"

text \<open>The test of line 71 (line 136 in \<^verbatim>\<open>GPS-CLOCK2.py\<close>).\<close>

definition time_bearing :: "sentence \<Rightarrow> bool" where
  "time_bearing msg = (is_RMC msg \<and> truthy (msg_timestamp msg) \<and> truthy (msg_datestamp msg))"

section \<open>\<^verbatim>\<open>GPS-CLOCK.py\<close>\<close>

text \<open>
  The \<^verbatim>\<open>while self.ser.in_waiting\<close> loop of \<^verbatim>\<open>update_time\<close>. The decoder is a parameter:
  \<open>None\<close> stands for \<^verbatim>\<open>pynmea2.ParseError\<close>, which the loop catches and prints. The result
  is the exception that leaves the loop, if any, and the state reached.
\<close>

function read_loop :: "decoder \<Rightarrow> zonedb \<Rightarrow> app \<Rightarrow> py_error option \<times> app" where
  "read_loop parse db s =
     (case ser s of
        [] \<Rightarrow> (None, s)
      | raw # rest \<Rightarrow>
          (case parse (read_line raw) of
             None \<Rightarrow>
               read_loop parse db
                 (print (''Parse error with line: '' @ read_line raw) (s\<lparr>ser := rest\<rparr>))
           | Some msg \<Rightarrow>
               if time_bearing msg then
                 (case combine (msg_datestamp msg) (msg_timestamp msg) of
                    Inl e \<Rightarrow> (Some e, s\<lparr>ser := rest\<rparr>)
                  | Inr dt \<Rightarrow>
                      (case timezone db (selected_time_zone s) of
                         None \<Rightarrow> (Some UnknownTimeZoneError, s\<lparr>ser := rest\<rparr>)
                       | Some tz \<Rightarrow>
                           (None,
                            adjust_window_size
                              (s\<lparr>ser := rest, time_label := strftime (astimezone tz dt)\<rparr>))))
               else read_loop parse db (s\<lparr>ser := rest\<rparr>)))"
  by pat_completeness auto
termination
  by (relation "measure (\<lambda>(parse, db, s). length (ser s))") (auto simp: print_def)

declare read_loop.simps [simp del]

text \<open>\<^verbatim>\<open>update_time\<close>: the loop, then \<^verbatim>\<open>self.master.after(1000, self.update_time)\<close>.\<close>

definition update_time :: "decoder \<Rightarrow> zonedb \<Rightarrow> app \<Rightarrow> py_error option \<times> app" where
  "update_time parse db s =
     (case read_loop parse db s of
        (Some e, s') \<Rightarrow> (Some e, s')
      | (None, s') \<Rightarrow> (None, after 1000 s'))"

text \<open>\<^verbatim>\<open>__init__\<close>: the state after the widgets are built and the port is opened (\<open>rx\<close> are
  the records already waiting, \<open>cfg\<close> the \<^verbatim>\<open>TimeZone\<close> entry of \<^verbatim>\<open>config.ini\<close>, with
  \<^verbatim>\<open>fallback='UTC'\<close> when there is none), then the first \<^verbatim>\<open>update_time()\<close>. An
  exception of that call leaves the constructor.\<close>

definition load_config :: "string option \<Rightarrow> string" where
  "load_config cfg = (case cfg of None \<Rightarrow> ''UTC'' | Some z \<Rightarrow> z)"

definition built :: "string option \<Rightarrow> string list \<Rightarrow> nat \<Rightarrow> app" where
  "built cfg rx t0 =
     \<lparr>ser = rx, selected_time_zone = load_config cfg, time_label = [], clock_mode = None,
      canvas = None, label_packed = True, canvas_packed = False, geometry = None,
      stdout = [], now = t0, timers = []\<rparr>"

definition init :: "decoder \<Rightarrow> zonedb \<Rightarrow> string option \<Rightarrow> string list \<Rightarrow> nat \<Rightarrow> py_error + app" where
  "init parse db cfg rx t0 =
     (case update_time parse db (built cfg rx t0) of
        (Some e, s') \<Rightarrow> Inl e
      | (None, s') \<Rightarrow> Inr s')"

section \<open>\<^verbatim>\<open>GPS-CLOCK2.py\<close>\<close>

text \<open>
  The same loop, except that a hit is shown according to \<^verbatim>\<open>self.clock_mode\<close>: reading the
  attribute before it is assigned raises \<^verbatim>\<open>AttributeError\<close>, and every mode other than
  \<^verbatim>\<open>'digital'\<close> draws the analog face.
\<close>

function read_loop2 :: "decoder \<Rightarrow> zonedb \<Rightarrow> app \<Rightarrow> py_error option \<times> app" where
  "read_loop2 parse db s =
     (case ser s of
        [] \<Rightarrow> (None, s)
      | raw # rest \<Rightarrow>
          (case parse (read_line raw) of
             None \<Rightarrow>
               read_loop2 parse db
                 (print (''Parse error with line: '' @ read_line raw) (s\<lparr>ser := rest\<rparr>))
           | Some msg \<Rightarrow>
               if time_bearing msg then
                 (case combine (msg_datestamp msg) (msg_timestamp msg) of
                    Inl e \<Rightarrow> (Some e, s\<lparr>ser := rest\<rparr>)
                  | Inr dt \<Rightarrow>
                      (case timezone db (selected_time_zone s) of
                         None \<Rightarrow> (Some UnknownTimeZoneError, s\<lparr>ser := rest\<rparr>)
                       | Some tz \<Rightarrow>
                           (case clock_mode s of
                              None \<Rightarrow> (Some AttributeError, s\<lparr>ser := rest\<rparr>)
                            | Some mode \<Rightarrow>
                                if mode = ''digital''
                                then (None,
                                      s\<lparr>ser := rest, time_label := strftime (astimezone tz dt)\<rparr>)
                                else (None,
                                      draw_analog_clock (astimezone tz dt) (s\<lparr>ser := rest\<rparr>)))))
               else read_loop2 parse db (s\<lparr>ser := rest\<rparr>)))"
  by pat_completeness auto
termination
  by (relation "measure (\<lambda>(parse, db, s). length (ser s))") (auto simp: print_def)

declare read_loop2.simps [simp del]

definition update_time2 :: "decoder \<Rightarrow> zonedb \<Rightarrow> app \<Rightarrow> py_error option \<times> app" where
  "update_time2 parse db s =
     (case read_loop2 parse db s of
        (Some e, s') \<Rightarrow> (Some e, s')
      | (None, s') \<Rightarrow> (None, after 1000 s'))"

text \<open>\<^verbatim>\<open>set_clock_mode\<close> (lines 117 to 125): it ends with a direct call of \<^verbatim>\<open>update_time\<close>.\<close>

definition set_clock_mode :: "decoder \<Rightarrow> zonedb \<Rightarrow> string \<Rightarrow> app \<Rightarrow> py_error option \<times> app" where
  "set_clock_mode parse db mode s =
     update_time2 parse db
       (if mode = ''digital''
        then s\<lparr>clock_mode := Some mode, label_packed := True, canvas_packed := False\<rparr>
        else s\<lparr>clock_mode := Some mode, label_packed := False, canvas_packed := True\<rparr>)"

text \<open>\<^verbatim>\<open>__init__\<close> (lines 44 to 59): \<^verbatim>\<open>self.update_time()\<close> runs before
  \<^verbatim>\<open>self.clock_mode = 'digital'\<close>.\<close>

definition init2 :: "decoder \<Rightarrow> zonedb \<Rightarrow> string option \<Rightarrow> string list \<Rightarrow> nat \<Rightarrow> py_error + app" where
  "init2 parse db cfg rx t0 =
     (case update_time2 parse db (built cfg rx t0) of
        (Some e, s') \<Rightarrow> Inl e
      | (None, s') \<Rightarrow> Inr (s'\<lparr>clock_mode := Some ''digital''\<rparr>))"

section \<open>The event loop\<close>

text \<open>
  What Tk does between two callbacks: time passes (\<open>at\<close>), the port receives records
  (\<open>receive\<close>), and the pending timer that is due first runs its callback (\<open>fire\<close>,
  \<open>fire2\<close>). Timers are kept in the order they were armed, which is the order of their
  due times since every delay is 1000 ms.
\<close>

definition at :: "nat \<Rightarrow> app \<Rightarrow> app" where
  "at t s = s\<lparr>now := max (now s) t\<rparr>"

definition receive :: "string list \<Rightarrow> app \<Rightarrow> app" where
  "receive rx s = s\<lparr>ser := ser s @ rx\<rparr>"

definition fire :: "decoder \<Rightarrow> zonedb \<Rightarrow> app \<Rightarrow> py_error option \<times> app" where
  "fire parse db s =
     (case timers s of
        [] \<Rightarrow> (None, s)
      | t # ts \<Rightarrow> update_time parse db (at t (s\<lparr>timers := ts\<rparr>)))"

definition fire2 :: "decoder \<Rightarrow> zonedb \<Rightarrow> app \<Rightarrow> py_error option \<times> app" where
  "fire2 parse db s =
     (case timers s of
        [] \<Rightarrow> (None, s)
      | t # ts \<Rightarrow> update_time2 parse db (at t (s\<lparr>timers := ts\<rparr>)))"

section \<open>Both programs at once\<close>

datatype program = GPS_CLOCK | GPS_CLOCK2

fun tick :: "program \<Rightarrow> decoder \<Rightarrow> zonedb \<Rightarrow> app \<Rightarrow> py_error option \<times> app" where
  "tick GPS_CLOCK = update_time"
| "tick GPS_CLOCK2 = update_time2"

fun start :: "program \<Rightarrow> decoder \<Rightarrow> zonedb \<Rightarrow> string option \<Rightarrow> string list \<Rightarrow> nat \<Rightarrow> py_error + app" where
  "start GPS_CLOCK = init"
| "start GPS_CLOCK2 = init2"

fun timer_fires :: "program \<Rightarrow> decoder \<Rightarrow> zonedb \<Rightarrow> app \<Rightarrow> py_error option \<times> app" where
  "timer_fires GPS_CLOCK = fire"
| "timer_fires GPS_CLOCK2 = fire2"

text \<open>What the user sees: the text of the label and the face drawn on the canvas.\<close>

definition displayed :: "app \<Rightarrow> string \<times> pydatetime option" where
  "displayed s = (time_label s, canvas s)"

text \<open>
  The tick from \<open>s\<close> to \<open>s'\<close> has delivered \<open>dt\<close> to the display: as text on the label
  (\<^verbatim>\<open>GPS-CLOCK.py\<close>, and the digital mode of \<^verbatim>\<open>GPS-CLOCK2.py\<close>) or as the face on the
  canvas (every other mode), the other widget being left as it was.
\<close>

definition delivered :: "program \<Rightarrow> app \<Rightarrow> app \<Rightarrow> pydatetime \<Rightarrow> bool" where
  "delivered prog s s' dt =
     (if prog = GPS_CLOCK \<or> clock_mode s = Some ''digital''
      then time_label s' = strftime dt \<and> canvas s' = canvas s
      else canvas s' = Some dt \<and> time_label s' = time_label s)"

text \<open>A record is a hit when it decodes and passes the test of line 71 (136).\<close>

definition hit :: "decoder \<Rightarrow> string \<Rightarrow> bool" where
  "hit parse raw = (case parse (read_line raw) of None \<Rightarrow> False | Some msg \<Rightarrow> time_bearing msg)"

text \<open>The lines printed for the records of a run that do not decode.\<close>

definition diagnostics :: "decoder \<Rightarrow> string list \<Rightarrow> string list" where
  "diagnostics parse raws =
     map (\<lambda>raw. ''Parse error with line: '' @ read_line raw)
       (filter (\<lambda>raw. parse (read_line raw) = None) raws)"

text \<open>The body of the \<^verbatim>\<open>if\<close> of line 71, and of line 136, up to the \<^verbatim>\<open>break\<close>.\<close>

definition shown :: "zonedb \<Rightarrow> sentence \<Rightarrow> app \<Rightarrow> py_error option \<times> app" where
  "shown db msg s =
     (case combine (msg_datestamp msg) (msg_timestamp msg) of
        Inl e \<Rightarrow> (Some e, s)
      | Inr dt \<Rightarrow>
          (case timezone db (selected_time_zone s) of
             None \<Rightarrow> (Some UnknownTimeZoneError, s)
           | Some tz \<Rightarrow>
               (None, adjust_window_size (s\<lparr>time_label := strftime (astimezone tz dt)\<rparr>))))"

definition shown2 :: "zonedb \<Rightarrow> sentence \<Rightarrow> app \<Rightarrow> py_error option \<times> app" where
  "shown2 db msg s =
     (case combine (msg_datestamp msg) (msg_timestamp msg) of
        Inl e \<Rightarrow> (Some e, s)
      | Inr dt \<Rightarrow>
          (case timezone db (selected_time_zone s) of
             None \<Rightarrow> (Some UnknownTimeZoneError, s)
           | Some tz \<Rightarrow>
               (case clock_mode s of
                  None \<Rightarrow> (Some AttributeError, s)
                | Some mode \<Rightarrow>
                    if mode = ''digital''
                    then (None, s\<lparr>time_label := strftime (astimezone tz dt)\<rparr>)
                    else (None, draw_analog_clock (astimezone tz dt) s))))"

section \<open>Example input\<close>

text \<open>
  The sentence of the receiver's manual,
  \<^verbatim>\<open>$GPRMC,123519,A,4807.038,N,01131.000,E,022.4,084.4,230394,003.1,W*6A\<close>, with the time,
  the fix status and the checksum as parameters, and what the decoder returns for it: the
  fields between the sentence code and the checksum, split at the commas.
\<close>

abbreviation rmc_line :: "string \<Rightarrow> string \<Rightarrow> string \<Rightarrow> string" where
  "rmc_line t st cks \<equiv>
     ''$GPRMC,'' @ t @ '','' @ st @
     '',4807.038,N,01131.000,E,022.4,084.4,230394,003.1,W*'' @ cks"

abbreviation rmc :: "string \<Rightarrow> string \<Rightarrow> sentence" where
  "rmc t st \<equiv>
     Sentence ''GP'' ''RMC''
       [t, st, ''4807.038'', ''N'', ''01131.000'', ''E'', ''022.4'', ''084.4'', ''230394'',
        ''003.1'', ''W'']"

abbreviation gga_line :: string where
  "gga_line \<equiv> ''$GPGGA,123519,4807.038,N,01131.000,E,1,08,0.9,545.4,M,46.9,M,,*47''"

abbreviation crlf :: "string \<Rightarrow> string" where
  "crlf l \<equiv> l @ [CHR 0x0D, CHR 0x0A]"

text \<open>The decoder on the example lines; every other line is a \<^verbatim>\<open>ParseError\<close>.\<close>

definition example_decoder :: decoder where
  "example_decoder =
     map_of
       [(rmc_line ''123519'' ''A'' ''6A'', rmc ''123519'' ''A''),
        (rmc_line ''123519'' ''V'' ''7D'', rmc ''123519'' ''V''),
        (rmc_line ''123520'' ''A'' ''60'', rmc ''123520'' ''A''),
        (rmc_line ''000000'' ''A'' ''67'', rmc ''000000'' ''A''),
        (rmc_line '''' ''V'' ''70'', rmc '''' ''V''),
        (gga_line,
         Sentence ''GP'' ''GGA''
           [''123519'', ''4807.038'', ''N'', ''01131.000'', ''E'', ''1'', ''08'', ''0.9'',
            ''545.4'', ''M'', ''46.9'', ''M'', '''', ''''])]"

text \<open>The number two digit characters spell.\<close>

definition two :: "char \<Rightarrow> char \<Rightarrow> nat" where
  "two a b = 10 * digit_val a + digit_val b"

section \<open>The loop, record by record\<close>

lemma read_loop_Nil: "ser s = [] \<Longrightarrow> read_loop parse db s = (None, s)"
  by (subst read_loop.simps) simp

lemma read_loop_skip:
  assumes "ser s = raw # rest" and "\<not> hit parse raw"
  shows "read_loop parse db s =
         read_loop parse db (s\<lparr>ser := rest, stdout := stdout s @ diagnostics parse [raw]\<rparr>)"
  using assms
  by (subst read_loop.simps) (auto simp: hit_def diagnostics_def print_def split: option.splits)

lemma read_loop_hit:
  assumes "ser s = raw # rest" and "parse (read_line raw) = Some msg" and "time_bearing msg"
  shows "read_loop parse db s = shown db msg (s\<lparr>ser := rest\<rparr>)"
  using assms
  by (subst read_loop.simps)
     (auto simp: shown_def adjust_window_size_def split: option.splits sum.splits)

lemma diagnostics_append:
  "diagnostics parse (xs @ ys) = diagnostics parse xs @ diagnostics parse ys"
  by (simp add: diagnostics_def)

lemma read_loop_prefix:
  "ser s = pre @ rest \<Longrightarrow> \<forall>raw \<in> set pre. \<not> hit parse raw \<Longrightarrow>
   read_loop parse db s =
   read_loop parse db (s\<lparr>ser := rest, stdout := stdout s @ diagnostics parse pre\<rparr>)"
proof (induction pre arbitrary: s)
  case Nil
  then have "s\<lparr>ser := rest, stdout := stdout s @ diagnostics parse []\<rparr> = s"
    by (cases s) (simp add: diagnostics_def)
  then show ?case by simp
next
  case (Cons raw pre)
  let ?s1 = "s\<lparr>ser := pre @ rest, stdout := stdout s @ diagnostics parse [raw]\<rparr>"
  have "read_loop parse db s = read_loop parse db ?s1"
    using Cons.prems by (intro read_loop_skip) auto
  also have "\<dots> = read_loop parse db
       (?s1\<lparr>ser := rest, stdout := stdout ?s1 @ diagnostics parse pre\<rparr>)"
    using Cons.prems by (intro Cons.IH) auto
  finally show ?case
    using diagnostics_append [of parse "[raw]" pre] by simp
qed

lemma read_loop_no_hit:
  assumes "\<forall>raw \<in> set (ser s). \<not> hit parse raw"
  shows "read_loop parse db s =
         (None, s\<lparr>ser := [], stdout := stdout s @ diagnostics parse (ser s)\<rparr>)"
  using read_loop_prefix [of s "ser s" "[]" parse db] assms
  by (simp add: read_loop_Nil)

lemma read_loop_first_hit:
  assumes "ser s = pre @ raw # post" and "\<forall>x \<in> set pre. \<not> hit parse x"
    and "parse (read_line raw) = Some msg" and "time_bearing msg"
  shows "read_loop parse db s =
         shown db msg (s\<lparr>ser := post, stdout := stdout s @ diagnostics parse pre\<rparr>)"
proof -
  let ?s1 = "s\<lparr>ser := raw # post, stdout := stdout s @ diagnostics parse pre\<rparr>"
  have "read_loop parse db s = read_loop parse db ?s1"
    using assms(1,2) by (rule read_loop_prefix)
  also have "\<dots> = shown db msg (?s1\<lparr>ser := post\<rparr>)"
    using assms(3,4) by (intro read_loop_hit) auto
  also have "?s1\<lparr>ser := post\<rparr> = s\<lparr>ser := post, stdout := stdout s @ diagnostics parse pre\<rparr>"
    by (cases s) simp
  finally show ?thesis .
qed

lemma read_loop2_Nil: "ser s = [] \<Longrightarrow> read_loop2 parse db s = (None, s)"
  by (subst read_loop2.simps) simp

lemma read_loop2_skip:
  assumes "ser s = raw # rest" and "\<not> hit parse raw"
  shows "read_loop2 parse db s =
         read_loop2 parse db (s\<lparr>ser := rest, stdout := stdout s @ diagnostics parse [raw]\<rparr>)"
  using assms
  by (subst read_loop2.simps) (auto simp: hit_def diagnostics_def print_def split: option.splits)

lemma read_loop2_hit:
  assumes "ser s = raw # rest" and "parse (read_line raw) = Some msg" and "time_bearing msg"
  shows "read_loop2 parse db s = shown2 db msg (s\<lparr>ser := rest\<rparr>)"
  using assms
  by (subst read_loop2.simps)
     (auto simp: shown2_def draw_analog_clock_def split: option.splits sum.splits)

lemma read_loop2_prefix:
  "ser s = pre @ rest \<Longrightarrow> \<forall>raw \<in> set pre. \<not> hit parse raw \<Longrightarrow>
   read_loop2 parse db s =
   read_loop2 parse db (s\<lparr>ser := rest, stdout := stdout s @ diagnostics parse pre\<rparr>)"
proof (induction pre arbitrary: s)
  case Nil
  then have "s\<lparr>ser := rest, stdout := stdout s @ diagnostics parse []\<rparr> = s"
    by (cases s) (simp add: diagnostics_def)
  then show ?case by simp
next
  case (Cons raw pre)
  let ?s1 = "s\<lparr>ser := pre @ rest, stdout := stdout s @ diagnostics parse [raw]\<rparr>"
  have "read_loop2 parse db s = read_loop2 parse db ?s1"
    using Cons.prems by (intro read_loop2_skip) auto
  also have "\<dots> = read_loop2 parse db
       (?s1\<lparr>ser := rest, stdout := stdout ?s1 @ diagnostics parse pre\<rparr>)"
    using Cons.prems by (intro Cons.IH) auto
  finally show ?case
    using diagnostics_append [of parse "[raw]" pre] by simp
qed

lemma read_loop2_no_hit:
  assumes "\<forall>raw \<in> set (ser s). \<not> hit parse raw"
  shows "read_loop2 parse db s =
         (None, s\<lparr>ser := [], stdout := stdout s @ diagnostics parse (ser s)\<rparr>)"
  using read_loop2_prefix [of s "ser s" "[]" parse db] assms
  by (simp add: read_loop2_Nil)

lemma read_loop2_first_hit:
  assumes "ser s = pre @ raw # post" and "\<forall>x \<in> set pre. \<not> hit parse x"
    and "parse (read_line raw) = Some msg" and "time_bearing msg"
  shows "read_loop2 parse db s =
         shown2 db msg (s\<lparr>ser := post, stdout := stdout s @ diagnostics parse pre\<rparr>)"
proof -
  let ?s1 = "s\<lparr>ser := raw # post, stdout := stdout s @ diagnostics parse pre\<rparr>"
  have "read_loop2 parse db s = read_loop2 parse db ?s1"
    using assms(1,2) by (rule read_loop2_prefix)
  also have "\<dots> = shown2 db msg (?s1\<lparr>ser := post\<rparr>)"
    using assms(3,4) by (intro read_loop2_hit) auto
  also have "?s1\<lparr>ser := post\<rparr> = s\<lparr>ser := post, stdout := stdout s @ diagnostics parse pre\<rparr>"
    by (cases s) simp
  finally show ?thesis .
qed

section \<open>One tick\<close>

lemma truthy_getfield:
  "truthy (getfield conv i m) \<longleftrightarrow> i < length (data m) \<and> data m ! i \<noteq> []"
  by (auto simp: getfield_def Let_def split: option.splits)

lemma hit_iff:
  "hit parse raw \<longleftrightarrow>
   (\<exists>msg. parse (read_line raw) = Some msg \<and> is_RMC msg \<and>
      data msg \<noteq> [] \<and> data msg ! 0 \<noteq> [] \<and> 8 < length (data msg) \<and> data msg ! 8 \<noteq> [])"
  by (auto simp: hit_def time_bearing_def msg_timestamp_def msg_datestamp_def truthy_getfield
      split: option.splits)

lemma first_hit_split:
  assumes "\<exists>raw \<in> set xs. hit parse raw"
  shows "\<exists>pre raw post. xs = pre @ raw # post \<and> (\<forall>x \<in> set pre. \<not> hit parse x) \<and> hit parse raw"
  using split_list_first_prop [OF assms] by blast

lemma tick_no_hit:
  assumes "\<forall>raw \<in> set (ser s). \<not> hit parse raw"
  shows "tick prog parse db s =
         (None, after 1000 (s\<lparr>ser := [], stdout := stdout s @ diagnostics parse (ser s)\<rparr>))"
  using assms
  by (cases prog)
     (simp_all add: update_time_def update_time2_def read_loop_no_hit read_loop2_no_hit)

lemma tick_first_hit:
  assumes "ser s = pre @ raw # post" and "\<forall>x \<in> set pre. \<not> hit parse x"
    and "parse (read_line raw) = Some msg" and "time_bearing msg"
  shows "tick prog parse db s =
     (case (case prog of GPS_CLOCK \<Rightarrow> shown | GPS_CLOCK2 \<Rightarrow> shown2) db msg
             (s\<lparr>ser := post, stdout := stdout s @ diagnostics parse pre\<rparr>) of
        (Some e, s') \<Rightarrow> (Some e, s')
      | (None, s') \<Rightarrow> (None, after 1000 s'))"
  using assms
  by (cases prog)
     (simp_all add: update_time_def update_time2_def read_loop_first_hit read_loop2_first_hit)

lemma displayed_after [simp]: "displayed (after ms s) = displayed s"
  by (simp add: displayed_def after_def)



text \<open>
  C8, as amended: when no record of the batch is a hit (the batch is empty, or every record
  is unparseable, another sentence type, or an RMC sentence without time or without date),
  the tick returns normally, leaves the label and the canvas as they were, drains the
  buffer and arms the next tick. An RMC sentence with fix status \<^verbatim>\<open>V\<close> that carries time
  and date is a hit: the fix status plays no part.
\<close>
theorem C8_no_time_bearing_record_keeps_display:
  assumes "\<forall>raw \<in> set (ser s). \<not> hit parse raw"
  shows "fst (tick prog parse db s) = None \<and>
         displayed (snd (tick prog parse db s)) = displayed s \<and>
         ser (snd (tick prog parse db s)) = [] \<and>
         timers (snd (tick prog parse db s)) = timers s @ [now s + 1000]"
  using tick_no_hit [OF assms, of prog db]
  by (simp add: displayed_def after_def)




lemma time_bearing_Conv:
  "is_RMC msg \<Longrightarrow> msg_timestamp msg = Conv t \<Longrightarrow> msg_datestamp msg = Conv d \<Longrightarrow>
   time_bearing msg"
  by (simp add: time_bearing_def)

lemma tick_delivers:
  assumes "ser s = pre @ raw # post" and "\<forall>x \<in> set pre. \<not> hit parse x"
    and "parse (read_line raw) = Some msg" and "is_RMC msg"
    and "msg_timestamp msg = Conv t" and "msg_datestamp msg = Conv d"
    and "timezone db (selected_time_zone s) = Some tz"
    and "prog = GPS_CLOCK2 \<longrightarrow> clock_mode s \<noteq> None"
  shows "fst (tick prog parse db s) = None \<and>
         delivered prog s (snd (tick prog parse db s)) (tz (DateTime d t)) \<and>
         ser (snd (tick prog parse db s)) = post"
  using assms(5-8)
        tick_first_hit [OF assms(1-3) time_bearing_Conv [OF assms(4-6)], of prog db]
  by (cases prog)
     (auto simp: shown_def shown2_def delivered_def after_def adjust_window_size_def
        draw_analog_clock_def astimezone_def)

lemma tick_unknown_zone:
  assumes "ser s = pre @ raw # post" and "\<forall>x \<in> set pre. \<not> hit parse x"
    and "parse (read_line raw) = Some msg" and "is_RMC msg"
    and "msg_timestamp msg = Conv t" and "msg_datestamp msg = Conv d"
    and "timezone db (selected_time_zone s) = None"
  shows "tick prog parse db s =
         (Some UnknownTimeZoneError,
          s\<lparr>ser := post, stdout := stdout s @ diagnostics parse pre\<rparr>)"
  using assms(5-7)
        tick_first_hit [OF assms(1-3) time_bearing_Conv [OF assms(4-6)], of prog db]
  by (cases prog) (auto simp: shown_def shown2_def)

text \<open>
  C2, as amended: when the first hit is found and the selected zone is not in the zone
  database, there is no fallback to UTC: nothing is shown for that tick, the label and
  the canvas stay as they were.
\<close>
theorem C2_unknown_zone_shows_nothing:
  assumes "ser s = pre @ raw # post" and "\<forall>x \<in> set pre. \<not> hit parse x"
    and "parse (read_line raw) = Some msg" and "is_RMC msg"
    and "msg_timestamp msg = Conv t" and "msg_datestamp msg = Conv d"
    and "timezone db (selected_time_zone s) = None"
  shows "displayed (snd (tick prog parse db s)) = displayed s"
  using tick_unknown_zone [OF assms, of prog]
  by (simp add: displayed_def)

text \<open>
  C2 as stated fails: with the zone \<^verbatim>\<open>Mars/Phobos\<close> and the example sentence (fix status
  \<^verbatim>\<open>A\<close>), the tick raises and the label stays empty instead of showing the UTC time.
\<close>
theorem C2_no_fallback_to_UTC:
  "fst (tick GPS_CLOCK example_decoder Map.empty
      (built (Some ''Mars/Phobos'') [crlf (rmc_line ''123519'' ''A'' ''6A'')] 0)) =
     Some UnknownTimeZoneError \<and>
   time_label (snd (tick GPS_CLOCK example_decoder Map.empty
      (built (Some ''Mars/Phobos'') [crlf (rmc_line ''123519'' ''A'' ''6A'')] 0))) = [] \<and>
   strftime (utc (DateTime (Date 1994 3 23) (Time 12 35 19))) \<noteq> []"
  by code_simp

text \<open>C2, the amended statement for \<^verbatim>\<open>GPS-CLOCK2.py\<close> on a batch of two records.\<close>
theorem C2_witness:
  "displayed (snd (tick GPS_CLOCK2 example_decoder Map.empty
      (built (Some ''Mars/Phobos'') [gga_line, crlf (rmc_line ''123519'' ''A'' ''6A'')] 0))) =
     ([], None)"
proof -
  let ?s = "built (Some ''Mars/Phobos'') [gga_line, crlf (rmc_line ''123519'' ''A'' ''6A'')] 0"
  have 1: "ser ?s = [gga_line] @ crlf (rmc_line ''123519'' ''A'' ''6A'') # []"
    by (simp add: built_def)
  have 2: "\<forall>x \<in> set [gga_line]. \<not> hit example_decoder x" by code_simp
  have 3: "example_decoder (read_line (crlf (rmc_line ''123519'' ''A'' ''6A''))) =
           Some (rmc ''123519'' ''A'')" by code_simp
  have 4: "is_RMC (rmc ''123519'' ''A'')" by code_simp
  have 5: "msg_timestamp (rmc ''123519'' ''A'') = Conv (Time 12 35 19)" by code_simp
  have 6: "msg_datestamp (rmc ''123519'' ''A'') = Conv (Date 1994 3 23)" by code_simp
  have 7: "timezone Map.empty (selected_time_zone ?s) = None" by code_simp
  have 8: "displayed ?s = ([], None)" by code_simp
  from C2_unknown_zone_shows_nothing [OF 1 2 3 4 5 6 7, of GPS_CLOCK2] 8
  show ?thesis by simp
qed

text \<open>
  C3 fails on the code: either program is started with the zone \<^verbatim>\<open>Mars/Phobos\<close> and an
  empty buffer, so one timer is pending; the example sentence arrives and the timer
  fires. \<^verbatim>\<open>update_time\<close> is left by \<^verbatim>\<open>UnknownTimeZoneError\<close> before it reaches
  \<^verbatim>\<open>self.master.after(1000, self.update_time)\<close>, and no timer is pending afterwards.
\<close>
theorem C3_unknown_zone_stops_the_schedule:
  "\<not> isl (start GPS_CLOCK example_decoder Map.empty (Some ''Mars/Phobos'') [] 0) \<and>
   timers (projr (start GPS_CLOCK example_decoder Map.empty (Some ''Mars/Phobos'') [] 0)) =
     [1000] \<and>
   fst (timer_fires GPS_CLOCK example_decoder Map.empty
          (receive [crlf (rmc_line ''123519'' ''A'' ''6A'')]
             (projr (start GPS_CLOCK example_decoder Map.empty (Some ''Mars/Phobos'') [] 0)))) =
     Some UnknownTimeZoneError \<and>
   timers (snd (timer_fires GPS_CLOCK example_decoder Map.empty
          (receive [crlf (rmc_line ''123519'' ''A'' ''6A'')]
             (projr (start GPS_CLOCK example_decoder Map.empty (Some ''Mars/Phobos'') [] 0))))) =
     [] \<and>
   \<not> isl (start GPS_CLOCK2 example_decoder Map.empty (Some ''Mars/Phobos'') [] 0) \<and>
   timers (projr (start GPS_CLOCK2 example_decoder Map.empty (Some ''Mars/Phobos'') [] 0)) =
     [1000] \<and>
   fst (timer_fires GPS_CLOCK2 example_decoder Map.empty
          (receive [crlf (rmc_line ''123519'' ''A'' ''6A'')]
             (projr (start GPS_CLOCK2 example_decoder Map.empty (Some ''Mars/Phobos'') [] 0)))) =
     Some UnknownTimeZoneError \<and>
   timers (snd (timer_fires GPS_CLOCK2 example_decoder Map.empty
          (receive [crlf (rmc_line ''123519'' ''A'' ''6A'')]
             (projr (start GPS_CLOCK2 example_decoder Map.empty (Some ''Mars/Phobos'') [] 0))))) =
     []"
  by code_simp

text \<open>
  C4 fails on the code: \<^verbatim>\<open>GPS-CLOCK2.py\<close> is started at time 0 (one timer, due at 1000);
  at 400 the user selects the analog mode, and \<^verbatim>\<open>set_clock_mode\<close> calls
  \<^verbatim>\<open>update_time\<close>, which arms a second timer (due at 1400). Each of the two timers
  re-arms itself when it fires: from then on two update cycles run in every second.
\<close>
theorem C4_mode_switch_arms_a_second_timer:
  "\<not> isl (init2 example_decoder Map.empty None [] 0) \<and>
   timers (projr (init2 example_decoder Map.empty None [] 0)) = [1000] \<and>
   timers (snd (set_clock_mode example_decoder Map.empty ''analog''
      (at 400 (projr (init2 example_decoder Map.empty None [] 0))))) = [1000, 1400] \<and>
   timers (snd (fire2 example_decoder Map.empty
      (snd (set_clock_mode example_decoder Map.empty ''analog''
         (at 400 (projr (init2 example_decoder Map.empty None [] 0))))))) = [1400, 2000] \<and>
   timers (snd (fire2 example_decoder Map.empty
      (snd (fire2 example_decoder Map.empty
         (snd (set_clock_mode example_decoder Map.empty ''analog''
            (at 400 (projr (init2 example_decoder Map.empty None [] 0))))))))) = [2000, 2400]"
  by code_simp

text \<open>
  C5, as amended: when the batch holds an RMC sentence with time and date populated (whatever
  its fix status), the first one in arrival order decides the tick: if its fields convert
  and the zone is known (and, in \<^verbatim>\<open>GPS-CLOCK2.py\<close>, the clock mode is set), the tick
  returns normally and delivers the zone conversion of that sentence, and what is
  displayed does not depend on the records that follow it.
\<close>
theorem C5_first_time_bearing_sentence_wins:
  assumes "ser s = pre @ raw # post" and "\<forall>x \<in> set pre. \<not> hit parse x"
    and "parse (read_line raw) = Some msg" and "is_RMC msg"
    and "msg_timestamp msg = Conv t" and "msg_datestamp msg = Conv d"
    and "timezone db (selected_time_zone s) = Some tz"
    and "prog = GPS_CLOCK2 \<longrightarrow> clock_mode s \<noteq> None"
  shows "fst (tick prog parse db s) = None \<and>
         delivered prog s (snd (tick prog parse db s)) (tz (DateTime d t)) \<and>
         (\<forall>post'. displayed (snd (tick prog parse db (s\<lparr>ser := pre @ raw # post'\<rparr>))) =
                   displayed (snd (tick prog parse db s)))"
proof -
  have here: "fst (tick prog parse db s) = None \<and>
      delivered prog s (snd (tick prog parse db s)) (tz (DateTime d t))"
    using tick_delivers [OF assms] by simp
  have "displayed (snd (tick prog parse db (s\<lparr>ser := pre @ raw # post'\<rparr>))) =
        displayed (snd (tick prog parse db s))" for post'
  proof -
    let ?u = "s\<lparr>ser := pre @ raw # post'\<rparr>"
    have "delivered prog ?u (snd (tick prog parse db ?u)) (tz (DateTime d t))"
      using tick_delivers [of ?u pre raw post' parse msg t d db tz prog] assms(2-8) by simp
    with here show ?thesis
      by (auto simp: delivered_def displayed_def split: if_splits)
  qed
  with here show ?thesis by blast
qed

text \<open>
  C5 as stated fails: in a batch of a sentence with fix status \<^verbatim>\<open>V\<close> (12:35:19) followed
  by one with fix status \<^verbatim>\<open>A\<close> (12:35:20), the first sentence with a valid fix is the
  second record, but the label shows 12:35:19.
\<close>
theorem C5_invalid_fix_sentence_wins_over_later_valid_one:
  "msg_status (rmc ''123519'' ''V'') = ''V'' \<and> msg_status (rmc ''123520'' ''A'') = ''A'' \<and>
   time_label (snd (tick GPS_CLOCK example_decoder Map.empty
      (built None [crlf (rmc_line ''123519'' ''V'' ''7D''),
                   crlf (rmc_line ''123520'' ''A'' ''60'')] 0))) =
     strftime (utc (DateTime (Date 1994 3 23) (Time 12 35 19))) \<and>
   time_label (snd (tick GPS_CLOCK example_decoder Map.empty
      (built None [crlf (rmc_line ''123519'' ''V'' ''7D''),
                   crlf (rmc_line ''123520'' ''A'' ''60'')] 0))) \<noteq>
     strftime (utc (DateTime (Date 1994 3 23) (Time 12 35 20)))"
  by code_simp

text \<open>C5, the amended statement for \<^verbatim>\<open>GPS-CLOCK2.py\<close> in analog mode.\<close>
theorem C5_witness:
  "fst (tick GPS_CLOCK2 example_decoder Map.empty
      ((built None [gga_line, crlf (rmc_line ''123519'' ''A'' ''6A''),
                    crlf (rmc_line ''123520'' ''A'' ''60'')] 0)
        \<lparr>clock_mode := Some ''analog''\<rparr>)) = None \<and>
   canvas (snd (tick GPS_CLOCK2 example_decoder Map.empty
      ((built None [gga_line, crlf (rmc_line ''123519'' ''A'' ''6A''),
                    crlf (rmc_line ''123520'' ''A'' ''60'')] 0)
        \<lparr>clock_mode := Some ''analog''\<rparr>))) =
     Some (DateTime (Date 1994 3 23) (Time 12 35 19))"
proof -
  let ?s = "(built None [gga_line, crlf (rmc_line ''123519'' ''A'' ''6A''),
                    crlf (rmc_line ''123520'' ''A'' ''60'')] 0)
        \<lparr>clock_mode := Some ''analog''\<rparr>"
  have 1: "ser ?s = [gga_line] @ crlf (rmc_line ''123519'' ''A'' ''6A'') #
                      [crlf (rmc_line ''123520'' ''A'' ''60'')]"
    by (simp add: built_def)
  have 2: "\<forall>x \<in> set [gga_line]. \<not> hit example_decoder x" by code_simp
  have 3: "example_decoder (read_line (crlf (rmc_line ''123519'' ''A'' ''6A''))) =
           Some (rmc ''123519'' ''A'')" by code_simp
  have 4: "is_RMC (rmc ''123519'' ''A'')" by code_simp
  have 5: "msg_timestamp (rmc ''123519'' ''A'') = Conv (Time 12 35 19)" by code_simp
  have 6: "msg_datestamp (rmc ''123519'' ''A'') = Conv (Date 1994 3 23)" by code_simp
  have 7: "timezone Map.empty (selected_time_zone ?s) = Some utc"
    by (simp add: timezone_def built_def load_config_def)
  have 8: "GPS_CLOCK2 = GPS_CLOCK2 \<longrightarrow> clock_mode ?s \<noteq> None" by simp
  from C5_first_time_bearing_sentence_wins [OF 1 2 3 4 5 6 7 8]
  show ?thesis by (simp add: delivered_def utc_def built_def)
qed




text \<open>
  C8 as stated fails: a batch in which every sentence has fix status \<^verbatim>\<open>V\<close> changes the
  label of \<^verbatim>\<open>GPS-CLOCK2.py\<close>.
\<close>
theorem C8_invalid_fix_batch_is_shown:
  "msg_status (rmc ''123519'' ''V'') = ''V'' \<and>
   displayed ((built None [crlf (rmc_line ''123519'' ''V'' ''7D''),
                           crlf (rmc_line ''123519'' ''V'' ''7D'')] 0)
                \<lparr>clock_mode := Some ''digital''\<rparr>) = ([], None) \<and>
   displayed (snd (tick GPS_CLOCK2 example_decoder Map.empty
      ((built None [crlf (rmc_line ''123519'' ''V'' ''7D''),
                    crlf (rmc_line ''123519'' ''V'' ''7D'')] 0)
         \<lparr>clock_mode := Some ''digital''\<rparr>))) =
     (''1994-03-23'' @ [CHR 0x0A] @ ''12:35:19'', None)"
  by code_simp

text \<open>
  C8, the amended statement on a batch of an unparseable record, a GGA sentence and an
  RMC sentence without time.
\<close>
theorem C8_witness:
  "fst (tick GPS_CLOCK example_decoder Map.empty
      (built None [crlf ''$GPRMC,12x'', gga_line, crlf (rmc_line '''' ''V'' ''70'')] 0)) = None \<and>
   displayed (snd (tick GPS_CLOCK example_decoder Map.empty
      (built None [crlf ''$GPRMC,12x'', gga_line, crlf (rmc_line '''' ''V'' ''70'')] 0))) =
     ([], None) \<and>
   timers (snd (tick GPS_CLOCK example_decoder Map.empty
      (built None [crlf ''$GPRMC,12x'', gga_line, crlf (rmc_line '''' ''V'' ''70'')] 0))) =
     [1000]"
proof -
  let ?s = "built None [crlf ''$GPRMC,12x'', gga_line, crlf (rmc_line '''' ''V'' ''70'')] 0"
  have 1: "\<forall>raw \<in> set (ser ?s). \<not> hit example_decoder raw" by code_simp
  have 2: "displayed ?s = ([], None)" by code_simp
  have 3: "timers ?s @ [now ?s + 1000] = [1000]" by code_simp
  from C8_no_time_bearing_record_keeps_display [OF 1, of GPS_CLOCK Map.empty] 2 3
  show ?thesis by simp
qed

section \<open>Digits and formatting\<close>

lemma digit_val_lt: "is_digit c \<Longrightarrow> digit_val c < 10"
  by (auto simp: is_digit_def digit_val_def)

lemma digit_digit_val: "is_digit c \<Longrightarrow> digit (digit_val c) = c"
proof -
  assume d: "is_digit c"
  then have "48 + (of_char c - 48) mod 10 = (of_char c :: nat)"
    by (auto simp: is_digit_def)
  then show ?thesis
    by (simp add: digit_val_def digit_def)
qed



lemma digit_mod: "digit (n mod 10) = digit n"
  by (simp add: digit_def)

lemma py_int_two:
  "py_int [a, b] = (if is_digit a \<and> is_digit b then Some (two a b) else None)"
  by (simp add: py_int_def two_def)

lemma two_lt: "is_digit a \<Longrightarrow> is_digit b \<Longrightarrow> two a b < 100"
  using digit_val_lt [of a] digit_val_lt [of b] by (simp add: two_def)

lemma fmt2_two: "is_digit a \<Longrightarrow> is_digit b \<Longrightarrow> fmt2 (two a b) = [a, b]"
proof -
  assume a: "is_digit a" and b: "is_digit b"
  have "(two a b) div 10 = digit_val a" "(two a b) mod 10 = digit_val b"
    using digit_val_lt [OF b] by (simp_all add: two_def)
  then have "digit (two a b div 10) = a" "digit (two a b) = b"
    using digit_digit_val [OF a] digit_digit_val [OF b] digit_mod [of "two a b"] by simp_all
  then show ?thesis by (simp add: fmt2_def)
qed



lemma digit_consts:
  "digit 2 = CHR ''2''" "digit 0 = CHR ''0''" "digit 1 = CHR ''1''" "digit 9 = CHR ''9''"
  "digit 20 = CHR ''0''" "digit 19 = CHR ''9''" "digit (Suc 0) = CHR ''1''"
  by code_simp+

lemma add_div_k: "k \<noteq> 0 \<Longrightarrow> ((y::nat) + k * c) div k = c + y div k"
  by simp

lemma add_mod_k: "((y::nat) + k * c) mod k = y mod k"
  by simp

lemma fmt4_20: "y < 100 \<Longrightarrow> fmt4 (y + 2000) = ''20'' @ fmt2 y"
proof -
  assume y: "y < 100"
  have "(y + 2000) div 1000 = 2" "(y + 2000) div 100 = 20"
    using y add_div_k [of 1000 y 2] add_div_k [of 100 y 20] by simp_all
  moreover have "digit ((y + 2000) div 10) = digit (y div 10)"
    using add_div_k [of 10 y 200] add_mod_k [of "y div 10" 10 20]
      digit_mod [of "200 + y div 10"] digit_mod [of "y div 10"]
    by (simp add: add.commute)
  moreover have "digit (y + 2000) = digit y"
    using add_mod_k [of y 10 200] digit_mod [of "y + 2000"] digit_mod [of y] by simp
  ultimately show ?thesis by (simp add: fmt4_def fmt2_def digit_consts)
qed

lemma fmt4_19: "y < 100 \<Longrightarrow> fmt4 (y + 1900) = ''19'' @ fmt2 y"
proof -
  assume y: "y < 100"
  have "(y + 1900) div 1000 = 1" "(y + 1900) div 100 = 19"
    using y add_div_k [of 100 y 19] by simp_all
  moreover have "digit ((y + 1900) div 10) = digit (y div 10)"
    using add_div_k [of 10 y 190] add_mod_k [of "y div 10" 10 19]
      digit_mod [of "190 + y div 10"] digit_mod [of "y div 10"]
    by (simp add: add.commute)
  moreover have "digit (y + 1900) = digit y"
    using add_mod_k [of y 10 190] digit_mod [of "y + 1900"] digit_mod [of y] by simp
  ultimately show ?thesis by (simp add: fmt4_def fmt2_def digit_consts)
qed

lemma fmt4_strptime_year:
  "y < 100 \<Longrightarrow> fmt4 (strptime_year y) = (if y \<le> 68 then ''20'' else ''19'') @ fmt2 y"
  by (simp add: strptime_year_def fmt4_20 fmt4_19)

lemma timestamp_six:
  assumes "timestamp ([h1, h2, m1, m2, s1, s2] @ frac) = Some t"
  shows "is_digit h1 \<and> is_digit h2 \<and> is_digit m1 \<and> is_digit m2 \<and> is_digit s1 \<and> is_digit s2 \<and>
         t = Time (two h1 h2) (two m1 m2) (two s1 s2)"
  using assms
  by (auto simp: timestamp_def py_int_two split: if_splits)

lemma datestamp_six:
  assumes "datestamp [d1, d2, m1, m2, y1, y2] = Some d"
  shows "is_digit d1 \<and> is_digit d2 \<and> is_digit m1 \<and> is_digit m2 \<and> is_digit y1 \<and> is_digit y2 \<and>
         d = Date (strptime_year (two y1 y2)) (two m1 m2) (two d1 d2)"
  using assms
  by (auto simp: datestamp_def py_int_two split: if_splits)

lemma strftime_fields:
  assumes "timestamp ([h1, h2, m1, m2, s1, s2] @ frac) = Some t"
    and "datestamp [d1, d2, mo1, mo2, y1, y2] = Some d"
  shows "strftime (DateTime d t) =
         (if two y1 y2 \<le> 68 then ''20'' else ''19'') @ [y1, y2] @ ''-'' @ [mo1, mo2] @ ''-'' @
         [d1, d2] @ [CHR 0x0A] @ [h1, h2] @ '':'' @ [m1, m2] @ '':'' @ [s1, s2]"
  using timestamp_six [OF assms(1)] datestamp_six [OF assms(2)]
  by (simp add: strftime_def fmt2_two fmt4_strptime_year two_lt)

section \<open>Decoding the date and the time\<close>



lemma getfield_Some:
  "i < length (data m) \<Longrightarrow> conv (data m ! i) = Some x \<Longrightarrow> data m ! i \<noteq> [] \<Longrightarrow>
   getfield conv i m = Conv x"
  by (simp add: getfield_def)




text \<open>
  C9: when the first hit of the batch is an RMC sentence whose time field
  \<^verbatim>\<open>hhmmss[.f]\<close> and date field \<^verbatim>\<open>ddmmyy\<close> are well formed (the converters accept them)
  and the zone is \<^verbatim>\<open>UTC\<close>, the tick delivers the decoded date and time unchanged: its
  fields are the numbers the digits of the sentence spell, and its text carries those
  very digits, the year behind the century \<^verbatim>\<open>strptime\<close> chose. This holds whatever the
  fix status, so for a valid fix in particular.
\<close>
theorem C9_utc_round_trip:
  assumes "ser s = pre @ raw # post" and "\<forall>x \<in> set pre. \<not> hit parse x"
    and "parse (read_line raw) = Some msg" and "is_RMC msg"
    and "8 < length (data msg)"
    and "data msg ! 0 = [h1, h2, m1, m2, s1, s2] @ frac"
    and "timestamp (data msg ! 0) = Some t"
    and "data msg ! 8 = [d1, d2, mo1, mo2, y1, y2]"
    and "datestamp (data msg ! 8) = Some d"
    and "selected_time_zone s = ''UTC''"
    and "prog = GPS_CLOCK2 \<longrightarrow> clock_mode s \<noteq> None"
  shows "fst (tick prog parse db s) = None \<and>
         delivered prog s (snd (tick prog parse db s)) (DateTime d t) \<and>
         d = Date (strptime_year (two y1 y2)) (two mo1 mo2) (two d1 d2) \<and>
         t = Time (two h1 h2) (two m1 m2) (two s1 s2) \<and>
         strftime (DateTime d t) =
           (if two y1 y2 \<le> 68 then ''20'' else ''19'') @ [y1, y2] @ ''-'' @ [mo1, mo2] @ ''-'' @
           [d1, d2] @ [CHR 0x0A] @ [h1, h2] @ '':'' @ [m1, m2] @ '':'' @ [s1, s2]"
proof -
  have "0 < length (data msg)" using assms(5) by linarith
  moreover have "data msg ! 0 \<noteq> []" using assms(6) by simp
  ultimately have ts: "msg_timestamp msg = Conv t"
    unfolding msg_timestamp_def using assms(7) by (intro getfield_Some)
  have "data msg ! 8 \<noteq> []" using assms(8) by simp
  then have ds: "msg_datestamp msg = Conv d"
    unfolding msg_datestamp_def using assms(5,9) by (intro getfield_Some)
  have tz: "timezone db (selected_time_zone s) = Some utc"
    using assms(10) by (simp add: timezone_def)
  have "fst (tick prog parse db s) = None \<and>
        delivered prog s (snd (tick prog parse db s)) (DateTime d t)"
    using tick_delivers [OF assms(1-4) ts ds tz assms(11)] by (simp add: utc_def)
  moreover have "d = Date (strptime_year (two y1 y2)) (two mo1 mo2) (two d1 d2)"
    using datestamp_six [of d1 d2 mo1 mo2 y1 y2 d] assms(8,9) by simp
  moreover have "t = Time (two h1 h2) (two m1 m2) (two s1 s2)"
    using timestamp_six [of h1 h2 m1 m2 s1 s2 frac t] assms(6,7) by simp
  moreover have "strftime (DateTime d t) =
           (if two y1 y2 \<le> 68 then ''20'' else ''19'') @ [y1, y2] @ ''-'' @ [mo1, mo2] @ ''-'' @
           [d1, d2] @ [CHR 0x0A] @ [h1, h2] @ '':'' @ [m1, m2] @ '':'' @ [s1, s2]"
    using strftime_fields [of h1 h2 m1 m2 s1 s2 frac t d1 d2 mo1 mo2 y1 y2 d] assms(6-9)
    by simp
  ultimately show ?thesis by blast
qed

text \<open>C9 for \<^verbatim>\<open>GPS-CLOCK.py\<close> on the example sentence behind a GGA sentence.\<close>
theorem C9_witness:
  "fst (tick GPS_CLOCK example_decoder Map.empty
      (built None [gga_line, crlf (rmc_line ''123519'' ''A'' ''6A'')] 0)) = None \<and>
   time_label (snd (tick GPS_CLOCK example_decoder Map.empty
      (built None [gga_line, crlf (rmc_line ''123519'' ''A'' ''6A'')] 0))) =
     ''1994-03-23'' @ [CHR 0x0A] @ ''12:35:19''"
proof -
  let ?s = "built None [gga_line, crlf (rmc_line ''123519'' ''A'' ''6A'')] 0"
  let ?m = "rmc ''123519'' ''A''"
  have 1: "ser ?s = [gga_line] @ crlf (rmc_line ''123519'' ''A'' ''6A'') # []"
    by (simp add: built_def)
  have 2: "\<forall>x \<in> set [gga_line]. \<not> hit example_decoder x" by code_simp
  have 3: "example_decoder (read_line (crlf (rmc_line ''123519'' ''A'' ''6A''))) = Some ?m"
    by code_simp
  have 4: "is_RMC ?m" by code_simp
  have 5: "8 < length (data ?m)" by simp
  have 6: "data ?m ! 0 = [CHR ''1'', CHR ''2'', CHR ''3'', CHR ''5'', CHR ''1'', CHR ''9''] @ []"
    by simp
  have 7: "timestamp (data ?m ! 0) = Some (Time 12 35 19)" by code_simp
  have 8: "data ?m ! 8 = [CHR ''2'', CHR ''3'', CHR ''0'', CHR ''3'', CHR ''9'', CHR ''4'']"
    by simp
  have 9: "datestamp (data ?m ! 8) = Some (Date 1994 3 23)" by code_simp
  have 10: "selected_time_zone ?s = ''UTC''" by (simp add: built_def load_config_def)
  have 11: "GPS_CLOCK = GPS_CLOCK2 \<longrightarrow> clock_mode ?s \<noteq> None" by simp
  have 12: "\<not> two CHR ''9'' CHR ''4'' \<le> 68" by code_simp
  from C9_utc_round_trip [OF 1 2 3 4 5 6 7 8 9 10 11, of Map.empty] 12
  show ?thesis by (simp add: delivered_def)
qed

text \<open>
  C10: an RMC sentence whose time field is \<^verbatim>\<open>000000\<close> and whose date converts is a hit
  like any other (midnight is a true value), and when it is the first hit and the zone is
  known the tick delivers the zone conversion of midnight of that date.
\<close>
theorem C10_midnight_is_accepted:
  assumes "ser s = pre @ raw # post" and "\<forall>x \<in> set pre. \<not> hit parse x"
    and "parse (read_line raw) = Some msg" and "is_RMC msg"
    and "data msg \<noteq> []" and "data msg ! 0 = ''000000''"
    and "msg_datestamp msg = Conv d"
    and "timezone db (selected_time_zone s) = Some tz"
    and "prog = GPS_CLOCK2 \<longrightarrow> clock_mode s \<noteq> None"
  shows "hit parse raw \<and> fst (tick prog parse db s) = None \<and>
         delivered prog s (snd (tick prog parse db s)) (tz (DateTime d (Time 0 0 0)))"
proof -
  have "timestamp ''000000'' = Some (Time 0 0 0)" by code_simp
  moreover have "0 < length (data msg)" using assms(5) by simp
  moreover have "data msg ! 0 \<noteq> []" using assms(6) by simp
  ultimately have ts: "msg_timestamp msg = Conv (Time 0 0 0)"
    unfolding msg_timestamp_def using assms(6) by (intro getfield_Some) simp_all
  have "hit parse raw"
    using assms(3,4,7) ts by (simp add: hit_def time_bearing_def)
  with tick_delivers [OF assms(1-4) ts assms(7-9)] show ?thesis by simp
qed

text \<open>C10 for \<^verbatim>\<open>GPS-CLOCK.py\<close> in UTC: the label shows 00:00:00.\<close>
theorem C10_witness:
  "hit example_decoder (crlf (rmc_line ''000000'' ''A'' ''67'')) \<and>
   fst (tick GPS_CLOCK example_decoder Map.empty
      (built None [crlf (rmc_line ''000000'' ''A'' ''67'')] 0)) = None \<and>
   time_label (snd (tick GPS_CLOCK example_decoder Map.empty
      (built None [crlf (rmc_line ''000000'' ''A'' ''67'')] 0))) =
     ''1994-03-23'' @ [CHR 0x0A] @ ''00:00:00''"
proof -
  let ?s = "built None [crlf (rmc_line ''000000'' ''A'' ''67'')] 0"
  let ?m = "rmc ''000000'' ''A''"
  have 1: "ser ?s = [] @ crlf (rmc_line ''000000'' ''A'' ''67'') # []"
    by (simp add: built_def)
  have 2: "\<forall>x \<in> set []. \<not> hit example_decoder x" by simp
  have 3: "example_decoder (read_line (crlf (rmc_line ''000000'' ''A'' ''67''))) = Some ?m"
    by code_simp
  have 4: "is_RMC ?m" by code_simp
  have 5: "data ?m \<noteq> []" by simp
  have 6: "data ?m ! 0 = ''000000''" by simp
  have 7: "msg_datestamp ?m = Conv (Date 1994 3 23)" by code_simp
  have 8: "timezone Map.empty (selected_time_zone ?s) = Some utc"
    by (simp add: timezone_def built_def load_config_def)
  have 9: "GPS_CLOCK = GPS_CLOCK2 \<longrightarrow> clock_mode ?s \<noteq> None" by simp
  have 10: "strftime (utc (DateTime (Date 1994 3 23) (Time 0 0 0))) =
            ''1994-03-23'' @ [CHR 0x0A] @ ''00:00:00''" by code_simp
  from C10_midnight_is_accepted [OF 1 2 3 4 5 6 7 8 9] 10
  show ?thesis by (simp add: delivered_def)
qed

section \<open>Timers\<close>

text \<open>
  A tick arms the next one exactly when it returns normally; an exception leaves the
  pending timers as they were. A mode switch that returns normally therefore adds a
  timer, and a timer that fires and returns normally replaces itself.
\<close>

lemma shown_timers:
  "shown db msg s0 = (r, s') \<Longrightarrow> timers s' = timers s0 \<and> now s' = now s0"
  by (cases "msg_datestamp msg"; cases "msg_timestamp msg")
     (auto simp: shown_def adjust_window_size_def split: option.splits)

lemma shown2_timers:
  "shown2 db msg s0 = (r, s') \<Longrightarrow> timers s' = timers s0 \<and> now s' = now s0"
  by (cases "msg_datestamp msg"; cases "msg_timestamp msg")
     (auto simp: shown2_def draw_analog_clock_def split: option.splits if_splits)

lemma tick_timers:
  "timers (snd (tick prog parse db s)) =
   (if fst (tick prog parse db s) = None then timers s @ [now s + 1000] else timers s)"
proof (cases "\<exists>raw \<in> set (ser s). hit parse raw")
  case False
  then have "\<forall>raw \<in> set (ser s). \<not> hit parse raw" by blast
  from tick_no_hit [OF this, of prog db] show ?thesis by (simp add: after_def)
next
  case True
  from first_hit_split [OF this] obtain pre raw post where
    split: "ser s = pre @ raw # post" and pre: "\<forall>x \<in> set pre. \<not> hit parse x"
    and raw: "hit parse raw" by blast
  from raw obtain msg where msg: "parse (read_line raw) = Some msg" and tb: "time_bearing msg"
    by (auto simp: hit_def split: option.splits)
  let ?s0 = "s\<lparr>ser := post, stdout := stdout s @ diagnostics parse pre\<rparr>"
  show ?thesis
  proof (cases prog)
    case GPS_CLOCK
    obtain r s' where sh: "shown db msg ?s0 = (r, s')" by (cases "shown db msg ?s0")
    with tick_first_hit [OF split pre msg tb, of prog db] GPS_CLOCK shown_timers [OF sh]
    show ?thesis by (cases r) (auto simp: after_def)
  next
    case GPS_CLOCK2
    obtain r s' where sh: "shown2 db msg ?s0 = (r, s')" by (cases "shown2 db msg ?s0")
    with tick_first_hit [OF split pre msg tb, of prog db] GPS_CLOCK2 shown2_timers [OF sh]
    show ?thesis by (cases r) (auto simp: after_def)
  qed
qed

lemma set_clock_mode_timers:
  "timers (snd (set_clock_mode parse db mode s)) =
   (if fst (set_clock_mode parse db mode s) = None then timers s @ [now s + 1000] else timers s)"
  using tick_timers [of GPS_CLOCK2 parse db]
  by (simp add: set_clock_mode_def)

lemma timer_fires_timers:
  "timers s = t # ts \<Longrightarrow>
   timers (snd (timer_fires prog parse db s)) =
   (if fst (timer_fires prog parse db s) = None then ts @ [max (now s) t + 1000] else ts)"
  using tick_timers [of prog parse db "at t (s\<lparr>timers := ts\<rparr>)"]
  by (cases prog) (simp_all add: fire_def fire2_def at_def)

end
